theory Spec2Isabelle
  imports Complex_Main
begin

section \<open>The voice-agent client of App.tsx: session state machine and audio pipeline\<close>

text \<open>
  The component \<open>App\<close> keeps its state in React state variables and in refs, and it
  reacts to events: the two buttons (\<open>connectToGemini\<close>, \<open>disconnect\<close>), the capture
  callback of the script processor (\<open>onaudioprocess\<close>), and the four transport callbacks
  (\<open>onopen\<close>, \<open>onmessage\<close>, \<open>onclose\<close>, \<open>onerror\<close>). Each handler is embedded as a
  function from the state before to the state after.

  The state record holds, next to the component's own variables, the host objects the
  handlers act on: media tracks, audio contexts, script processors, session promises and
  buffer sources are kept in stores (lists indexed by the order of creation), and a ref
  holds the index of its object. Calls into the transport and the console are logged.

  Times are JavaScript numbers; they are embedded as reals. \<open>Math.random\<close> ids and
  \<open>Date\<close> timestamps of a log entry are left out.
\<close>

subsection \<open>Data\<close>

datatype ConnectionState = disconnected | connecting | connected | error

datatype Sender = user | agent | system

record LogMessage =
  sender :: Sender
  logText :: string

text \<open>A media track is live until \<open>track.stop()\<close>; stopping an ended track does nothing.\<close>

datatype ReadyState = Live | Ended

datatype ContextState = Running | Closed

text \<open>
  The promise returned by \<open>ai.live.connect\<close>. While it is pending it holds the reactions
  registered by \<open>.then\<close>, in the order of registration; each reaction of the capture
  callback is determined by the blob it will send.
\<close>

datatype 'b SessionPromise = Pending "'b list" | Fulfilled | Rejected

text \<open>
  The script processor made by \<open>initializeAudio\<close>. Its \<open>onaudioprocess\<close> closure is
  created once, in the render in which the connect button was clicked: the constant
  \<open>isMuted\<close> it reads is the value of that render.
\<close>

record ScriptProcessor =
  sp_context :: nat
  sp_isMuted :: bool

text \<open>A buffer source that was started: \<open>source.start(when)\<close> with its buffer's duration.\<close>

record PlaybackSource =
  startTime :: real
  duration :: real

text \<open>
  The fields of a \<open>LiveServerMessage\<close> that \<open>onmessage\<close> reads:
  \<open>serverContent.outputTranscription.text\<close>, \<open>serverContent.inputTranscription.text\<close>,
  \<open>serverContent.turnComplete\<close>, \<open>serverContent.modelTurn.parts[0].inlineData.data\<close> and
  \<open>serverContent.interrupted\<close>. An absent object is \<open>None\<close>.
\<close>

record LiveServerMessage =
  outputTranscription :: "string option"
  inputTranscription :: "string option"
  turnComplete :: bool
  inlineData :: "string option"
  interrupted :: bool

record 'b App =
  connectionState :: ConnectionState
  logs :: "LogMessage list"
  isMuted :: bool
  callerName :: string
  inputAudioContextRef :: "nat option"
  outputAudioContextRef :: "nat option"
  inputAnalyserRef :: "nat option"
  outputAnalyserRef :: "nat option"
  nextStartTimeRef :: real
  sourcesRef :: "nat list"
  sessionPromiseRef :: "nat option"
  currentInputTranscriptionRef :: string
  currentOutputTranscriptionRef :: string
  streamRef :: "nat option"
  tracks :: "ReadyState list"
  contexts :: "ContextState list"
  processors :: "ScriptProcessor list"
  promises :: "'b SessionPromise list"
  started :: "PlaybackSource list"
  stopCalls :: "nat list"
  sendCalls :: "(nat \<times> 'b) list"
  console :: "string list"

text \<open>The component as first rendered: the initial values of \<open>useState\<close> and \<open>useRef\<close>.\<close>

definition initialApp :: "'b App" where
  "initialApp =
     \<lparr>connectionState = disconnected, logs = [], isMuted = False, callerName = [],
      inputAudioContextRef = None, outputAudioContextRef = None,
      inputAnalyserRef = None, outputAnalyserRef = None,
      nextStartTimeRef = 0, sourcesRef = [], sessionPromiseRef = None,
      currentInputTranscriptionRef = [], currentOutputTranscriptionRef = [],
      streamRef = None, tracks = [], contexts = [], processors = [], promises = [],
      started = [], stopCalls = [], sendCalls = [], console = []\<rparr>"

definition lookup :: "'a list \<Rightarrow> nat \<Rightarrow> 'a option" where
  "lookup xs i = (if i < length xs then Some (xs ! i) else None)"

subsection \<open>The log messages\<close>

text \<open>The Turkish texts, with each letter outside ASCII as its UTF-8 bytes.\<close>

definition micErrorText :: string where
  "micErrorText =
     ''Mikrofon hatas'' @ [CHR 0xC4, CHR 0xB1] @ ''. L'' @ [CHR 0xC3, CHR 0xBC]
       @ ''tfen izinleri kontrol edin.''"

definition apiKeyMissingText :: string where
  "apiKeyMissingText =
     ''API Key eksik. L'' @ [CHR 0xC3, CHR 0xBC] @ ''tfen metadata/env kontrol edin.''"

definition baglanti :: string where
  "baglanti = ''Ba'' @ [CHR 0xC4, CHR 0x9F] @ ''lant'' @ [CHR 0xC4, CHR 0xB1]"

definition connectedText :: string where
  "connectedText =
     ''H'' @ [CHR 0xC4, CHR 0xB1] @ ''zl'' @ [CHR 0xC4, CHR 0xB1] @ '' '' @ baglanti
       @ '' Kuruldu (Ultra Low Latency).''"

definition asli :: string where
  "asli = ''TechCorp, ben Asl'' @ [CHR 0xC4, CHR 0xB1]"

definition greetingText :: "string \<Rightarrow> string" where
  "greetingText name =
     (if name \<noteq> [] then asli @ ''. Merhaba '' @ name @ ''...''
      else asli @ '', size nas'' @ [CHR 0xC4, CHR 0xB1] @ ''l yard'' @ [CHR 0xC4, CHR 0xB1]
        @ ''mc'' @ [CHR 0xC4, CHR 0xB1] @ '' olabilirim?'')"

definition closedText :: string where
  "closedText = baglanti @ '' kesildi.''"

definition errorText :: string where
  "errorText =
     baglanti @ '' hatas'' @ [CHR 0xC4, CHR 0xB1] @ '' olu'' @ [CHR 0xC5, CHR 0x9F] @ ''tu.''"

definition connectFailedText :: "string \<Rightarrow> string" where
  "connectFailedText e =
     baglanti @ '' ba'' @ [CHR 0xC5, CHR 0x9F] @ ''lat'' @ [CHR 0xC4, CHR 0xB1] @ ''lamad''
       @ [CHR 0xC4, CHR 0xB1] @ '': '' @ e"

subsection \<open>Handlers\<close>

text \<open>\<open>addLog\<close>: \<open>setLogs(prev => [...prev, entry])\<close>.\<close>

definition addLog :: "Sender \<Rightarrow> string \<Rightarrow> 'b App \<Rightarrow> 'b App" where
  "addLog who t s = s\<lparr>logs := logs s @ [\<lparr>sender = who, logText = t\<rparr>]\<rparr>"

text \<open>
  \<open>session.sendRealtimeInput({ media: pcmBlob })\<close> inside \<open>try\<close>/\<open>catch\<close>: the call is made
  on the session of promise \<open>p\<close>; when it throws (\<open>sendThrows\<close>, decided by the transport)
  the handler writes to the console and goes on.
\<close>

definition sendRealtimeInput :: "('b \<Rightarrow> bool) \<Rightarrow> nat \<Rightarrow> 'b \<Rightarrow> 'b App \<Rightarrow> 'b App" where
  "sendRealtimeInput sendThrows p pcmBlob s =
     (let s1 = s\<lparr>sendCalls := sendCalls s @ [(p, pcmBlob)]\<rparr>
      in if sendThrows pcmBlob then s1\<lparr>console := console s1 @ [''Error sending input:'']\<rparr>
         else s1)"

text \<open>
  \<open>promise.then(session => send).catch(warn)\<close>: on a pending promise the reaction is
  registered and runs when the promise settles; on a fulfilled one it runs at once; on a
  rejected one only the \<open>catch\<close> handler runs.
\<close>

definition promiseThen :: "('b \<Rightarrow> bool) \<Rightarrow> nat \<Rightarrow> 'b \<Rightarrow> 'b App \<Rightarrow> 'b App" where
  "promiseThen sendThrows p pcmBlob s =
     (case lookup (promises s) p of
        None \<Rightarrow> s
      | Some (Pending rs) \<Rightarrow> s\<lparr>promises := (promises s)[p := Pending (rs @ [pcmBlob])]\<rparr>
      | Some Fulfilled \<Rightarrow> sendRealtimeInput sendThrows p pcmBlob s
      | Some Rejected \<Rightarrow> s\<lparr>console := console s @ [''Session not ready or failed:'']\<rparr>)"

text \<open>
  The transport settles the promise: the session is established (the registered
  reactions run in order) or the connection attempt fails (each \<open>catch\<close> handler warns).
\<close>

definition resolveSession :: "('b \<Rightarrow> bool) \<Rightarrow> nat \<Rightarrow> 'b App \<Rightarrow> 'b App" where
  "resolveSession sendThrows p s =
     (case lookup (promises s) p of
        Some (Pending rs) \<Rightarrow>
          foldl (\<lambda>s' pcmBlob. sendRealtimeInput sendThrows p pcmBlob s')
            (s\<lparr>promises := (promises s)[p := Fulfilled]\<rparr>) rs
      | _ \<Rightarrow> s)"

definition rejectSession :: "nat \<Rightarrow> 'b App \<Rightarrow> 'b App" where
  "rejectSession p s =
     (case lookup (promises s) p of
        Some (Pending rs) \<Rightarrow>
          s\<lparr>promises := (promises s)[p := Rejected],
            console := console s @ replicate (length rs) ''Session not ready or failed:''\<rparr>
      | _ \<Rightarrow> s)"

text \<open>
  \<open>scriptProcessor.onaudioprocess\<close>. \<open>muted\<close> is the \<open>isMuted\<close> of the closure;
  \<open>createBlob\<close> is the encoder of \<open>utils/audioUtils\<close>, taken as a parameter.
\<close>

definition onaudioprocess ::
  "(real list \<Rightarrow> 'b) \<Rightarrow> ('b \<Rightarrow> bool) \<Rightarrow> bool \<Rightarrow> real list \<Rightarrow> 'b App \<Rightarrow> 'b App" where
  "onaudioprocess createBlob sendThrows muted inputData s =
     (if muted then s
      else case sessionPromiseRef s of
        None \<Rightarrow> s
      | Some p \<Rightarrow> promiseThen sendThrows p (createBlob inputData) s)"

text \<open>
  The host fires processor \<open>k\<close> with a buffer of samples: its closure runs with the
  \<open>isMuted\<close> it captured, as long as its audio context has not been closed.
\<close>

definition audioprocess ::
  "(real list \<Rightarrow> 'b) \<Rightarrow> ('b \<Rightarrow> bool) \<Rightarrow> nat \<Rightarrow> real list \<Rightarrow> 'b App \<Rightarrow> 'b App" where
  "audioprocess createBlob sendThrows k inputData s =
     (case lookup (processors s) k of
        None \<Rightarrow> s
      | Some sp \<Rightarrow>
          if lookup (contexts s) (sp_context sp) = Some Running
          then onaudioprocess createBlob sendThrows (sp_isMuted sp) inputData s
          else s)"

text \<open>
  Every script processor made so far holds, in its closure, the \<open>isMuted\<close> that the
  component holds now.
\<close>

definition capturedMute :: "'b App \<Rightarrow> bool" where
  "capturedMute s = list_all (\<lambda>sp. sp_isMuted sp = isMuted s) (processors s)"

text \<open>
  \<open>initializeAudio\<close>. \<open>micOk\<close> is the outcome of \<open>getUserMedia\<close>: when it rejects, the
  \<open>catch\<close> block runs and nothing of the \<open>try\<close> block has happened.
\<close>

definition initializeAudio :: "bool \<Rightarrow> 'b App \<Rightarrow> 'b App" where
  "initializeAudio micOk s =
     (if micOk then
        (let inputCtx = length (contexts s); outputCtx = Suc inputCtx
         in s\<lparr>streamRef := Some (length (tracks s)),
              tracks := tracks s @ [Live],
              inputAudioContextRef := Some inputCtx,
              inputAnalyserRef := Some inputCtx,
              processors := processors s @ [\<lparr>sp_context = inputCtx, sp_isMuted = isMuted s\<rparr>],
              outputAudioContextRef := Some outputCtx,
              outputAnalyserRef := Some outputCtx,
              contexts := contexts s @ [Running, Running]\<rparr>)
      else
        addLog system micErrorText
          (s\<lparr>console := console s @ [''Audio initialization failed''],
             connectionState := error\<rparr>))"

text \<open>
  \<open>connectToGemini\<close>. \<open>apiKey\<close> is \<open>process.env.API_KEY\<close> (absent, or a string that is
  falsy when empty); \<open>connectThrows\<close> is the error of \<open>ai.live.connect\<close> when the call
  itself throws. The system instruction and the voice name are composed and handed to
  the transport; they change no state and are left out.
\<close>

definition connectToGemini :: "string option \<Rightarrow> bool \<Rightarrow> string option \<Rightarrow> 'b App \<Rightarrow> 'b App" where
  "connectToGemini apiKey micOk connectThrows s =
     (if apiKey = None \<or> apiKey = Some [] then addLog system apiKeyMissingText s
      else
        (let s1 = initializeAudio micOk (s\<lparr>connectionState := connecting\<rparr>)
         in case connectThrows of
              None \<Rightarrow>
                s1\<lparr>promises := promises s1 @ [Pending []],
                   sessionPromiseRef := Some (length (promises s1))\<rparr>
            | Some e \<Rightarrow>
                addLog system (connectFailedText e)
                  (s1\<lparr>console := console s1 @ [''Connection failed''],
                      connectionState := error\<rparr>)))"

text \<open>\<open>onopen\<close>; \<open>name\<close> is the \<open>callerName\<close> of the closure.\<close>

definition onopen :: "string \<Rightarrow> 'b App \<Rightarrow> 'b App" where
  "onopen name s =
     addLog agent (greetingText name)
       (addLog system connectedText (s\<lparr>connectionState := connected\<rparr>))"

text \<open>\<open>onmessage\<close>, in its four parts.\<close>

definition handleTranscription :: "LiveServerMessage \<Rightarrow> 'b App \<Rightarrow> 'b App" where
  "handleTranscription m s =
     (case outputTranscription m of
        Some t \<Rightarrow> s\<lparr>currentOutputTranscriptionRef := currentOutputTranscriptionRef s @ t\<rparr>
      | None \<Rightarrow>
          (case inputTranscription m of
             Some t \<Rightarrow> s\<lparr>currentInputTranscriptionRef := currentInputTranscriptionRef s @ t\<rparr>
           | None \<Rightarrow> s))"

definition flushInput :: "'b App \<Rightarrow> 'b App" where
  "flushInput s =
     (if currentInputTranscriptionRef s \<noteq> []
      then (addLog user (currentInputTranscriptionRef s) s)\<lparr>currentInputTranscriptionRef := []\<rparr>
      else s)"

definition flushOutput :: "'b App \<Rightarrow> 'b App" where
  "flushOutput s =
     (if currentOutputTranscriptionRef s \<noteq> []
      then (addLog agent (currentOutputTranscriptionRef s) s)\<lparr>currentOutputTranscriptionRef := []\<rparr>
      else s)"

definition handleTurnComplete :: "LiveServerMessage \<Rightarrow> 'b App \<Rightarrow> 'b App" where
  "handleTurnComplete m s = (if turnComplete m then flushOutput (flushInput s) else s)"

text \<open>
  The audio part. \<open>now\<close> is \<open>ctx.currentTime\<close>; \<open>decodeAudioData\<close> stands for
  \<open>decodeAudioData(decode(base64Audio), ctx, 24000, 1)\<close> of \<open>utils/audioUtils\<close>, taken as
  a parameter: the duration of the decoded buffer, or \<open>None\<close> when decoding throws. The
  handler has no \<open>try\<close> around it, so a throw ends the handler there: the result is
  \<open>Inl\<close> of the state reached. The \<open>await\<close> is taken to resume before the next event
  is dispatched.
\<close>

definition handleAudio ::
  "(string \<Rightarrow> real option) \<Rightarrow> real \<Rightarrow> LiveServerMessage \<Rightarrow> 'b App \<Rightarrow> 'b App + 'b App" where
  "handleAudio decodeAudioData now m s =
     (case inlineData m of
        None \<Rightarrow> Inr s
      | Some base64Audio \<Rightarrow>
          if base64Audio \<noteq> [] \<and> outputAudioContextRef s \<noteq> None \<and> outputAnalyserRef s \<noteq> None
          then
            (let s1 = s\<lparr>nextStartTimeRef := max (nextStartTimeRef s) now\<rparr>
             in case decodeAudioData base64Audio of
                  None \<Rightarrow> Inl s1
                | Some d \<Rightarrow>
                    Inr (s1\<lparr>started := started s1 @ [\<lparr>startTime = nextStartTimeRef s1, duration = d\<rparr>],
                            nextStartTimeRef := nextStartTimeRef s1 + d,
                            sourcesRef := sourcesRef s1 @ [length (started s1)]\<rparr>))
          else Inr s)"

definition handleInterruption :: "LiveServerMessage \<Rightarrow> 'b App \<Rightarrow> 'b App" where
  "handleInterruption m s =
     (if interrupted m
      then s\<lparr>console := console s @ [''Interruption detected - clearing audio queue''],
             stopCalls := stopCalls s @ sourcesRef s,
             sourcesRef := [],
             nextStartTimeRef := 0\<rparr>
      else s)"

definition onmessage ::
  "(string \<Rightarrow> real option) \<Rightarrow> real \<Rightarrow> LiveServerMessage \<Rightarrow> 'b App \<Rightarrow> 'b App" where
  "onmessage decodeAudioData now m s =
     (case handleAudio decodeAudioData now m (handleTurnComplete m (handleTranscription m s)) of
        Inl s' \<Rightarrow> s'
      | Inr s' \<Rightarrow> handleInterruption m s')"

text \<open>The \<open>ended\<close> listener of a buffer source.\<close>

definition onended :: "nat \<Rightarrow> 'b App \<Rightarrow> 'b App" where
  "onended src s = s\<lparr>sourcesRef := removeAll src (sourcesRef s)\<rparr>"

definition onclose :: "'b App \<Rightarrow> 'b App" where
  "onclose s =
     addLog system closedText
       (s\<lparr>console := console s @ [''Session closed from server''],
          connectionState := disconnected\<rparr>)"

definition onerror :: "'b App \<Rightarrow> 'b App" where
  "onerror s =
     addLog system errorText
       (s\<lparr>console := console s @ [''Session error:''], connectionState := error\<rparr>)"

text \<open>\<open>disconnect\<close>. The stream ref and the analyser refs are not cleared.\<close>

definition stopTracks :: "nat option \<Rightarrow> ReadyState list \<Rightarrow> ReadyState list" where
  "stopTracks r ts = (case r of None \<Rightarrow> ts | Some i \<Rightarrow> ts[i := Ended])"

definition closeContext :: "nat option \<Rightarrow> ContextState list \<Rightarrow> ContextState list" where
  "closeContext r cs = (case r of None \<Rightarrow> cs | Some i \<Rightarrow> cs[i := Closed])"

definition disconnect :: "'b App \<Rightarrow> 'b App" where
  "disconnect s =
     s\<lparr>sessionPromiseRef := None,
       tracks := stopTracks (streamRef s) (tracks s),
       contexts := closeContext (outputAudioContextRef s)
                     (closeContext (inputAudioContextRef s) (contexts s)),
       inputAudioContextRef := None,
       outputAudioContextRef := None,
       connectionState := disconnected,
       logs := [],
       currentInputTranscriptionRef := [],
       currentOutputTranscriptionRef := [],
       nextStartTimeRef := 0,
       sourcesRef := []\<rparr>"

text \<open>Inbound messages in the order of receipt, each with the clock reading at its arrival.\<close>

fun receive ::
  "(string \<Rightarrow> real option) \<Rightarrow> (real \<times> LiveServerMessage) list \<Rightarrow> 'b App \<Rightarrow> 'b App" where
  "receive dec [] s = s"
| "receive dec ((now, m) # ms) s = receive dec ms (onmessage dec now m s)"

subsection \<open>Sequences of audio fragments\<close>

text \<open>
  A received message, with the clock reading at its arrival, is a fragment of duration
  \<open>d\<close> when it carries non-empty audio data that decodes to a buffer of duration \<open>d\<close>
  (a duration is not negative) and it does not carry the interruption flag.
\<close>

definition fragment :: "(string \<Rightarrow> real option) \<Rightarrow> real \<times> LiveServerMessage \<Rightarrow> real \<Rightarrow> bool" where
  "fragment dec nm d =
     (inlineData (snd nm) \<noteq> None \<and> the (inlineData (snd nm)) \<noteq> []
      \<and> dec (the (inlineData (snd nm))) = Some d \<and> 0 \<le> d \<and> \<not> interrupted (snd nm))"

text \<open>The state after the first \<open>i\<close> messages of a sequence.\<close>

definition stateAfter ::
  "(string \<Rightarrow> real option) \<Rightarrow> (real \<times> LiveServerMessage) list \<Rightarrow> 'b App \<Rightarrow> nat \<Rightarrow> 'b App" where
  "stateAfter dec ms s i = receive dec (take i ms) s"

text \<open>
  The start time given to the source of message \<open>i\<close> (counted from 0): the argument of the
  last \<open>source.start\<close> made once that message has been handled.
\<close>

definition startOf ::
  "(string \<Rightarrow> real option) \<Rightarrow> (real \<times> LiveServerMessage) list \<Rightarrow> 'b App \<Rightarrow> nat \<Rightarrow> real" where
  "startOf dec ms s i = startTime (last (started (stateAfter dec ms s (Suc i))))"

subsection \<open>Sample runs\<close>

text \<open>
  Concrete parameters and states for the examples below: an encoder that hands the
  samples on as they are, a transport whose send never throws, and a decoder that knows
  one payload, \<open>AAAA\<close>, of half a second, and throws on every other.
\<close>

definition plainBlob :: "real list \<Rightarrow> real list" where
  "plainBlob inputData = inputData"

definition neverThrows :: "real list \<Rightarrow> bool" where
  "neverThrows pcmBlob = False"

definition sampleDecode :: "string \<Rightarrow> real option" where
  "sampleDecode a = (if a = ''AAAA'' then Some (1/2) else None)"

definition audioMessage :: "string \<Rightarrow> LiveServerMessage" where
  "audioMessage a =
     \<lparr>outputTranscription = None, inputTranscription = None, turnComplete = False,
      inlineData = Some a, interrupted = False\<rparr>"

text \<open>
  The connect button is clicked with a key present, the microphone is granted and the
  transport call returns its promise: the session is being negotiated.
\<close>

definition negotiatingApp :: "(real list) App" where
  "negotiatingApp = connectToGemini (Some ''key'') True None initialApp"

text \<open>Then the promise is fulfilled and the transport reports \<open>open\<close>.\<close>

definition connectedApp :: "(real list) App" where
  "connectedApp = onopen [] (resolveSession neverThrows 0 negotiatingApp)"


text \<open>Then one audio fragment arrives at clock time 0 and is scheduled.\<close>

definition playingApp :: "(real list) App" where
  "playingApp = onmessage sampleDecode 0 (audioMessage ''AAAA'') connectedApp"

text \<open>Or a fragment arrives together with a piece of the caller's transcription.\<close>

definition talkingApp :: "(real list) App" where
  "talkingApp =
     onmessage sampleDecode 0 ((audioMessage ''AAAA'')\<lparr>inputTranscription := Some ''merhaba''\<rparr>)
       connectedApp"

section \<open>Properties\<close>

subsection \<open>What each handler leaves alone\<close>

lemma addLog_fields:
  "logs (addLog who t s) = logs s @ [\<lparr>sender = who, logText = t\<rparr>]"
  "connectionState (addLog who t s) = connectionState s"
  "tracks (addLog who t s) = tracks s"
  "contexts (addLog who t s) = contexts s"
  "promises (addLog who t s) = promises s"
  "sessionPromiseRef (addLog who t s) = sessionPromiseRef s"
  "currentInputTranscriptionRef (addLog who t s) = currentInputTranscriptionRef s"
  "currentOutputTranscriptionRef (addLog who t s) = currentOutputTranscriptionRef s"
  by (simp_all add: addLog_def)

lemma handleAudio_logs:
  "logs (case handleAudio dec now m s of Inl s' \<Rightarrow> s' | Inr s' \<Rightarrow> handleInterruption m s')
     = logs s"
  by (simp add: handleAudio_def handleInterruption_def Let_def split: option.splits)

lemma handleAudio_acc:
  "currentInputTranscriptionRef
     (case handleAudio dec now m s of Inl s' \<Rightarrow> s' | Inr s' \<Rightarrow> handleInterruption m s')
     = currentInputTranscriptionRef s"
  "currentOutputTranscriptionRef
     (case handleAudio dec now m s of Inl s' \<Rightarrow> s' | Inr s' \<Rightarrow> handleInterruption m s')
     = currentOutputTranscriptionRef s"
  by (simp_all add: handleAudio_def handleInterruption_def Let_def split: option.splits)

lemma flush_fields:
  "logs (flushOutput (flushInput s)) =
     logs s
       @ (if currentInputTranscriptionRef s \<noteq> []
          then [\<lparr>sender = user, logText = currentInputTranscriptionRef s\<rparr>] else [])
       @ (if currentOutputTranscriptionRef s \<noteq> []
          then [\<lparr>sender = agent, logText = currentOutputTranscriptionRef s\<rparr>] else [])"
  "currentInputTranscriptionRef (flushOutput (flushInput s)) = []"
  "currentOutputTranscriptionRef (flushOutput (flushInput s)) = []"
  by (simp_all add: flushInput_def flushOutput_def addLog_def)

lemma handleTranscription_acc:
  "currentOutputTranscriptionRef (handleTranscription m s) =
     currentOutputTranscriptionRef s @ (case outputTranscription m of Some t \<Rightarrow> t | None \<Rightarrow> [])"
  "currentInputTranscriptionRef (handleTranscription m s) =
     currentInputTranscriptionRef s @
       (case outputTranscription m of
          Some t \<Rightarrow> []
        | None \<Rightarrow> (case inputTranscription m of Some t \<Rightarrow> t | None \<Rightarrow> []))"
  by (simp_all add: handleTranscription_def split: option.splits)

lemma handleTranscription_logs: "logs (handleTranscription m s) = logs s"
  by (simp add: handleTranscription_def split: option.splits)

lemma onmessage_logs:
  "logs (onmessage dec now m s) = logs (handleTurnComplete m (handleTranscription m s))"
  by (simp add: onmessage_def handleAudio_logs)

lemma onmessage_connectionState:
  "connectionState (onmessage dec now m s) = connectionState s"
  by (simp add: onmessage_def handleAudio_def handleInterruption_def handleTurnComplete_def
      handleTranscription_def flushInput_def flushOutput_def addLog_def Let_def
      split: option.splits)

lemma transcript_steps_ignore_audio:
  "handleTurnComplete (m\<lparr>inlineData := a\<rparr>) s = handleTurnComplete m s"
  "handleTranscription (m\<lparr>inlineData := a\<rparr>) s = handleTranscription m s"
  by (simp_all add: handleTurnComplete_def handleTranscription_def split: option.splits)

lemma audio_adds_no_log:
  "logs (onmessage dec now m s) = logs (onmessage dec now (m\<lparr>inlineData := None\<rparr>) s)"
  by (simp add: onmessage_logs transcript_steps_ignore_audio)

lemma transcript_steps_scheduler:
  "nextStartTimeRef (handleTurnComplete m (handleTranscription m s)) = nextStartTimeRef s"
  "started (handleTurnComplete m (handleTranscription m s)) = started s"
  "sourcesRef (handleTurnComplete m (handleTranscription m s)) = sourcesRef s"
  "stopCalls (handleTurnComplete m (handleTranscription m s)) = stopCalls s"
  "outputAudioContextRef (handleTurnComplete m (handleTranscription m s)) = outputAudioContextRef s"
  "outputAnalyserRef (handleTurnComplete m (handleTranscription m s)) = outputAnalyserRef s"
  by (simp_all add: handleTurnComplete_def handleTranscription_def flushInput_def flushOutput_def
      addLog_def split: option.splits)

lemma sendRealtimeInput_fields:
  "logs (sendRealtimeInput st p b s) = logs s"
  "connectionState (sendRealtimeInput st p b s) = connectionState s"
  "promises (sendRealtimeInput st p b s) = promises s"
  "sendCalls (sendRealtimeInput st p b s) = sendCalls s @ [(p, b)]"
  by (simp_all add: sendRealtimeInput_def Let_def)

text \<open>The reactions of a fulfilled promise: one send for each, in order.\<close>

lemma flush_sends_fields:
  "logs (foldl (\<lambda>s' b. sendRealtimeInput st p b s') s rs) = logs s"
  "connectionState (foldl (\<lambda>s' b. sendRealtimeInput st p b s') s rs) = connectionState s"
  "promises (foldl (\<lambda>s' b. sendRealtimeInput st p b s') s rs) = promises s"
  "sendCalls (foldl (\<lambda>s' b. sendRealtimeInput st p b s') s rs) = sendCalls s @ map (Pair p) rs"
  by (induction rs arbitrary: s) (simp_all add: sendRealtimeInput_fields)

lemma promiseThen_fields:
  "logs (promiseThen st p b s) = logs s"
  "connectionState (promiseThen st p b s) = connectionState s"
  by (simp_all add: promiseThen_def sendRealtimeInput_fields
      split: option.splits SessionPromise.splits)

lemma capture_path_fields:
  "logs (onaudioprocess cb st mu x s) = logs s"
  "connectionState (onaudioprocess cb st mu x s) = connectionState s"
  "logs (resolveSession st p s) = logs s"
  "connectionState (resolveSession st p s) = connectionState s"
  "logs (rejectSession p s) = logs s"
  "connectionState (rejectSession p s) = connectionState s"
  by (simp_all add: onaudioprocess_def resolveSession_def rejectSession_def promiseThen_fields
      flush_sends_fields split: option.splits SessionPromise.splits)

subsection \<open>Transcript aggregation\<close>

text \<open>
  Claim C5. A message with the turn-complete flag flushes the two accumulators as they
  stand when the flag is read (after the message's own transcription fragment, if it
  carries one, has been appended): the log grows by one \<open>user\<close> (caller) entry with the
  inbound text if that text is non-empty, then by one \<open>agent\<close> entry with the outbound
  text if that text is non-empty, and by nothing else; both accumulators are empty
  afterwards. With both empty the log does not grow. A message that carries no
  transcription fragment flushes the accumulators of the state it meets.
\<close>

theorem turn_complete_flush:
  assumes "turnComplete m"
  shows "let s1 = handleTranscription m s;
             inp = currentInputTranscriptionRef s1;
             out = currentOutputTranscriptionRef s1;
             s' = onmessage dec now m s
         in logs s' = logs s
              @ (if inp \<noteq> [] then [\<lparr>sender = user, logText = inp\<rparr>] else [])
              @ (if out \<noteq> [] then [\<lparr>sender = agent, logText = out\<rparr>] else [])
            \<and> currentInputTranscriptionRef s' = []
            \<and> currentOutputTranscriptionRef s' = []
            \<and> (outputTranscription m = None \<and> inputTranscription m = None \<longrightarrow> s1 = s)"
  using assms
  by (simp add: Let_def onmessage_def handleAudio_logs handleAudio_acc handleTurnComplete_def
      flush_fields handleTranscription_logs)
     (simp add: handleTranscription_def)

text \<open>
  The scenario of the specification: the inbound accumulator holds \<open>merhaba\<close>, the
  outbound one is empty, and a bare turn-complete signal arrives.
\<close>

theorem turn_complete_flush_witness:
  "logs (onmessage sampleDecode 0
        \<lparr>outputTranscription = None, inputTranscription = None,
         turnComplete = True, inlineData = None, interrupted = False\<rparr>
        ((initialApp :: nat App)\<lparr>currentInputTranscriptionRef := ''merhaba''\<rparr>))
     = [\<lparr>sender = user, logText = ''merhaba''\<rparr>]"
  using turn_complete_flush [where m = "\<lparr>outputTranscription = None, inputTranscription = None,
         turnComplete = True, inlineData = None, interrupted = False\<rparr>"
      and s = "(initialApp :: nat App)\<lparr>currentInputTranscriptionRef := ''merhaba''\<rparr>"
      and dec = sampleDecode and now = 0]
  by (simp add: Let_def initialApp_def handleTranscription_def)

text \<open>
  Claim C6, as stated, fails: the handler reads the inbound fragment in the \<open>else\<close>
  branch of the test for the outbound one. A message that carries both fragments leaves
  the inbound accumulator as it was.
\<close>

theorem both_fragments_counterexample:
  "currentInputTranscriptionRef
     (onmessage sampleDecode 0
        \<lparr>outputTranscription = Some ''selam'', inputTranscription = Some ''merhaba'',
         turnComplete = False, inlineData = None, interrupted = False\<rparr>
        (initialApp :: nat App))
   \<noteq> currentInputTranscriptionRef (initialApp :: nat App) @ ''merhaba''"
  by (simp add: onmessage_def handleTranscription_def handleTurnComplete_def handleAudio_def
      handleInterruption_def initialApp_def)

text \<open>
  Claim C6, amended. For every inbound message the outbound fragment, if present, is
  appended to the outbound accumulator; the inbound fragment is appended to the inbound
  accumulator only when the message carries no outbound fragment. A message with both
  appends to the outbound accumulator alone. (Where the message also has the
  turn-complete flag, the accumulators are flushed after the append.)
\<close>

theorem transcription_routing:
  "let out = (case outputTranscription m of Some t \<Rightarrow> t | None \<Rightarrow> []);
       inp = (case outputTranscription m of
                Some t \<Rightarrow> []
              | None \<Rightarrow> (case inputTranscription m of Some t \<Rightarrow> t | None \<Rightarrow> []));
       s' = onmessage dec now m s
   in currentOutputTranscriptionRef (handleTranscription m s) = currentOutputTranscriptionRef s @ out
      \<and> currentInputTranscriptionRef (handleTranscription m s) = currentInputTranscriptionRef s @ inp
      \<and> currentOutputTranscriptionRef s' =
            (if turnComplete m then [] else currentOutputTranscriptionRef s @ out)
      \<and> currentInputTranscriptionRef s' =
            (if turnComplete m then [] else currentInputTranscriptionRef s @ inp)"
  by (simp add: Let_def onmessage_def handleAudio_acc handleTurnComplete_def flush_fields
      handleTranscription_acc)

theorem transcription_routing_witness:
  "currentOutputTranscriptionRef
     (onmessage sampleDecode 0
        \<lparr>outputTranscription = Some ''selam'', inputTranscription = Some ''merhaba'',
         turnComplete = False, inlineData = None, interrupted = False\<rparr>
        (initialApp :: nat App)) = ''selam''
   \<and> currentInputTranscriptionRef
     (onmessage sampleDecode 0
        \<lparr>outputTranscription = None, inputTranscription = Some ''merhaba'',
         turnComplete = False, inlineData = None, interrupted = False\<rparr>
        (initialApp :: nat App)) = ''merhaba''"
  using transcription_routing [where m = "\<lparr>outputTranscription = Some ''selam'',
         inputTranscription = Some ''merhaba'',
         turnComplete = False, inlineData = None, interrupted = False\<rparr>"
      and s = "initialApp :: nat App" and dec = sampleDecode and now = 0]
    transcription_routing [where m = "\<lparr>outputTranscription = None,
         inputTranscription = Some ''merhaba'',
         turnComplete = False, inlineData = None, interrupted = False\<rparr>"
      and s = "initialApp :: nat App" and dec = sampleDecode and now = 0]
  by (simp add: Let_def initialApp_def)

subsection \<open>The capture callback\<close>

text \<open>
  Claim C1, as stated, fails. While the session is being negotiated the handle is a
  pending promise, and the callback registers its send on it with \<open>then\<close>: nothing is
  sent at that moment, and the chunk is sent once the promise is fulfilled.
\<close>

theorem pending_chunk_sent_later_counterexample:
  "connectionState negotiatingApp = connecting
   \<and> lookup (promises negotiatingApp) 0 = Some (Pending [])
   \<and> sendCalls (audioprocess plainBlob neverThrows 0 [1/2] negotiatingApp) = []
   \<and> sendCalls (resolveSession neverThrows 0
        (audioprocess plainBlob neverThrows 0 [1/2] negotiatingApp)) = [(0, [1/2])]"
  by (simp add: negotiatingApp_def connectToGemini_def initializeAudio_def initialApp_def
      lookup_def Let_def audioprocess_def onaudioprocess_def promiseThen_def resolveSession_def
      sendRealtimeInput_def plainBlob_def neverThrows_def)

text \<open>
  Claim C1, amended. A capture callback that runs while the session handle is absent
  (null: not yet assigned, or cleared by \<open>disconnect\<close>) drops its chunk: the state is
  left as it was, so no later moment can send it. A callback that runs unmuted while the
  handle is assigned but not yet resolved sends nothing at that moment and registers the
  send on the handle: if the handle resolves, the chunk is sent exactly once, after the
  chunks registered before it, and the handle holds no reaction afterwards; if the handle
  is rejected, the chunk is never sent.
\<close>

theorem capture_dropped_or_deferred:
  "(sessionPromiseRef s = None \<longrightarrow> onaudioprocess createBlob sendThrows muted x s = s)
   \<and> (\<not> muted \<and> sessionPromiseRef s = Some p \<and> lookup (promises s) p = Some (Pending rs) \<longrightarrow>
        sendCalls (onaudioprocess createBlob sendThrows muted x s) = sendCalls s
        \<and> lookup (promises (onaudioprocess createBlob sendThrows muted x s)) p
             = Some (Pending (rs @ [createBlob x]))
        \<and> sendCalls (resolveSession sendThrows p (onaudioprocess createBlob sendThrows muted x s))
             = sendCalls s @ map (Pair p) rs @ [(p, createBlob x)]
        \<and> lookup (promises
              (resolveSession sendThrows p (onaudioprocess createBlob sendThrows muted x s))) p
             = Some Fulfilled
        \<and> sendCalls (rejectSession p (onaudioprocess createBlob sendThrows muted x s))
             = sendCalls s)"
proof -
  have dropped:
    "sessionPromiseRef s = None \<longrightarrow> onaudioprocess createBlob sendThrows muted x s = s"
    by (simp add: onaudioprocess_def)
  have queued: "sendCalls s' = sendCalls s
        \<and> lookup (promises s') p = Some (Pending (rs @ [createBlob x]))
        \<and> sendCalls (resolveSession sendThrows p s')
             = sendCalls s @ map (Pair p) rs @ [(p, createBlob x)]
        \<and> lookup (promises (resolveSession sendThrows p s')) p = Some Fulfilled
        \<and> sendCalls (rejectSession p s') = sendCalls s"
    if h: "\<not> muted" "sessionPromiseRef s = Some p" "lookup (promises s) p = Some (Pending rs)"
      and s': "s' = onaudioprocess createBlob sendThrows muted x s" for s'
  proof -
    have p: "p < length (promises s)"
      using h(3) by (simp add: lookup_def split: if_splits)
    have e: "s' = s\<lparr>promises := (promises s)[p := Pending (rs @ [createBlob x])]\<rparr>"
      using h by (simp add: s' onaudioprocess_def promiseThen_def)
    have l: "lookup (promises s') p = Some (Pending (rs @ [createBlob x]))"
      using p by (simp add: e lookup_def)
    show ?thesis
      using p l
      by (simp add: resolveSession_def rejectSession_def flush_sends_fields sendRealtimeInput_fields)
         (simp add: e lookup_def)
  qed
  from dropped queued show ?thesis by blast
qed

theorem capture_dropped_or_deferred_witness:
  "sessionPromiseRef (initialApp :: (real list) App) = None
   \<and> onaudioprocess plainBlob neverThrows False [1/2] initialApp = initialApp
   \<and> sessionPromiseRef negotiatingApp = Some 0
   \<and> lookup (promises negotiatingApp) 0 = Some (Pending [])
   \<and> sendCalls (onaudioprocess plainBlob neverThrows False [1/2] negotiatingApp) = []
   \<and> sendCalls (resolveSession neverThrows 0
        (onaudioprocess plainBlob neverThrows False [1/2] negotiatingApp)) = [(0, [1/2])]
   \<and> sendCalls (rejectSession 0
        (onaudioprocess plainBlob neverThrows False [1/2] negotiatingApp)) = []"
proof -
  have a: "sessionPromiseRef (initialApp :: (real list) App) = None"
    by (simp add: initialApp_def)
  have b: "sessionPromiseRef negotiatingApp = Some 0"
    "lookup (promises negotiatingApp) 0 = Some (Pending [])" "sendCalls negotiatingApp = []"
    by (simp_all add: negotiatingApp_def connectToGemini_def initializeAudio_def initialApp_def
        lookup_def Let_def)
  show ?thesis
    using a b
      capture_dropped_or_deferred [where s = "initialApp :: (real list) App"
        and createBlob = plainBlob and sendThrows = neverThrows and muted = False and x = "[1/2]"]
      capture_dropped_or_deferred [where s = negotiatingApp and p = 0 and rs = "[]"
        and createBlob = plainBlob and sendThrows = neverThrows and muted = False and x = "[1/2]"]
    by (simp add: plainBlob_def)
qed

text \<open>
  The state variable \<open>isMuted\<close> is never assigned: its setter is declared and nothing
  calls it. No handler changes it, and the closure of every script processor holds the
  value the component holds.
\<close>

lemma send_mute:
  "isMuted (sendRealtimeInput st p b s) = isMuted s"
  "processors (sendRealtimeInput st p b s) = processors s"
  by (simp_all add: sendRealtimeInput_def Let_def)

lemma flush_sends_mute:
  "isMuted (foldl (\<lambda>s' b. sendRealtimeInput st p b s') s rs) = isMuted s"
  "processors (foldl (\<lambda>s' b. sendRealtimeInput st p b s') s rs) = processors s"
  by (induction rs arbitrary: s) (simp_all add: send_mute)

lemma isMuted_kept:
  "isMuted (addLog who t s) = isMuted s"
  "isMuted (sendRealtimeInput st p b s) = isMuted s"
  "isMuted (promiseThen st p b s) = isMuted s"
  "isMuted (resolveSession st p s) = isMuted s"
  "isMuted (rejectSession p s) = isMuted s"
  "isMuted (onaudioprocess cb st mu x s) = isMuted s"
  "isMuted (audioprocess cb st k x s) = isMuted s"
  "isMuted (initializeAudio micOk s) = isMuted s"
  "isMuted (connectToGemini apiKey micOk thr s) = isMuted s"
  "isMuted (onopen name s) = isMuted s"
  "isMuted (onmessage dec now m s) = isMuted s"
  "isMuted (onended src s) = isMuted s"
  "isMuted (onclose s) = isMuted s"
  "isMuted (onerror s) = isMuted s"
  "isMuted (disconnect s) = isMuted s"
  by (simp_all add: addLog_def send_mute promiseThen_def resolveSession_def
      rejectSession_def onaudioprocess_def audioprocess_def initializeAudio_def
      connectToGemini_def onopen_def onmessage_def handleTranscription_def
      handleTurnComplete_def flushInput_def flushOutput_def handleAudio_def
      handleInterruption_def onended_def onclose_def onerror_def disconnect_def
      flush_sends_mute Let_def
      split: option.splits SessionPromise.splits sum.splits)

lemma capturedMute_initial: "capturedMute (initialApp\<lparr>isMuted := b\<rparr>)"
  by (simp add: capturedMute_def initialApp_def)

lemma capturedMute_kept:
  assumes "capturedMute s"
  shows "capturedMute (addLog who t s)"
    and "capturedMute (sendRealtimeInput st p b s)"
    and "capturedMute (promiseThen st p b s)"
    and "capturedMute (resolveSession st p s)"
    and "capturedMute (rejectSession p s)"
    and "capturedMute (onaudioprocess cb st mu x s)"
    and "capturedMute (audioprocess cb st k x s)"
    and "capturedMute (initializeAudio micOk s)"
    and "capturedMute (connectToGemini apiKey micOk thr s)"
    and "capturedMute (onopen name s)"
    and "capturedMute (onmessage dec now m s)"
    and "capturedMute (onended src s)"
    and "capturedMute (onclose s)"
    and "capturedMute (onerror s)"
    and "capturedMute (disconnect s)"
  using assms
  by (simp_all add: capturedMute_def addLog_def send_mute promiseThen_def
      resolveSession_def rejectSession_def onaudioprocess_def audioprocess_def
      initializeAudio_def connectToGemini_def onopen_def onmessage_def handleTranscription_def
      handleTurnComplete_def flushInput_def flushOutput_def handleAudio_def
      handleInterruption_def onended_def onclose_def onerror_def disconnect_def
      flush_sends_mute Let_def
      split: option.splits SessionPromise.splits sum.splits)



text \<open>With mute off, the same cycles in the connected state send their chunks.\<close>

lemma unmuted_capture_sends:
  "sendCalls
     (foldl (\<lambda>s' x. audioprocess plainBlob neverThrows 0 x s') connectedApp [[1/2], [1/4]])
     = [(0, [1/2]), (0, [1/4])]"
  by (simp add: connectedApp_def onopen_def addLog_def resolveSession_def neverThrows_def
      negotiatingApp_def connectToGemini_def initializeAudio_def initialApp_def lookup_def
      Let_def audioprocess_def onaudioprocess_def promiseThen_def sendRealtimeInput_def
      plainBlob_def)



subsection \<open>The playback scheduler\<close>

lemma fragment_step:
  assumes "outputAudioContextRef s \<noteq> None" "outputAnalyserRef s \<noteq> None"
    and "inlineData m = Some a" "a \<noteq> []" "dec a = Some d" "\<not> interrupted m"
  shows "started (onmessage dec now m s)
           = started s @ [\<lparr>startTime = max (nextStartTimeRef s) now, duration = d\<rparr>]"
    and "nextStartTimeRef (onmessage dec now m s) = max (nextStartTimeRef s) now + d"
    and "sourcesRef (onmessage dec now m s) = sourcesRef s @ [length (started s)]"
    and "outputAudioContextRef (onmessage dec now m s) = outputAudioContextRef s"
    and "outputAnalyserRef (onmessage dec now m s) = outputAnalyserRef s"
  using assms
  by (simp_all add: onmessage_def handleAudio_def handleInterruption_def Let_def
      transcript_steps_scheduler)

lemma receive_append: "receive dec (ms @ ms') s = receive dec ms' (receive dec ms s)"
  by (induction ms arbitrary: s) auto

lemma receive_keeps_output:
  assumes "list_all2 (fragment dec) ms ds"
    and "outputAudioContextRef s \<noteq> None" "outputAnalyserRef s \<noteq> None"
  shows "outputAudioContextRef (receive dec ms s) \<noteq> None
         \<and> outputAnalyserRef (receive dec ms s) \<noteq> None"
  using assms
proof (induction ms arbitrary: s ds)
  case Nil
  then show ?case by simp
next
  case (Cons nm ms)
  obtain now m where nm: "nm = (now, m)" by (cases nm)
  from Cons.prems(1) obtain d ds' where ds: "ds = d # ds'" and f: "fragment dec nm d"
    and rest: "list_all2 (fragment dec) ms ds'"
    by (auto simp: list_all2_Cons1)
  from f nm obtain a where a: "inlineData m = Some a" "a \<noteq> []" "dec a = Some d" "\<not> interrupted m"
    by (auto simp: fragment_def)
  have "outputAudioContextRef (onmessage dec now m s) \<noteq> None"
    "outputAnalyserRef (onmessage dec now m s) \<noteq> None"
    using fragment_step(4,5) [where s = s and m = m and a = a and dec = dec and d = d
        and now = now] Cons.prems(2,3) a by simp_all
  with Cons.IH [OF rest] show ?case by (simp add: nm)
qed

lemma stateAfter_Suc:
  assumes "i < length ms"
  shows "stateAfter dec ms s (Suc i)
           = onmessage dec (fst (ms ! i)) (snd (ms ! i)) (stateAfter dec ms s i)"
  using assms
  by (simp add: stateAfter_def take_Suc_conv_app_nth receive_append split: prod.splits)
     (metis prod.collapse receive.simps)

lemma schedule_step:
  assumes ctx: "outputAudioContextRef s \<noteq> None" "outputAnalyserRef s \<noteq> None"
    and frs: "list_all2 (fragment dec) ms ds"
    and i: "i < length ms"
  shows "started (stateAfter dec ms s (Suc i)) =
           started (stateAfter dec ms s i)
             @ [\<lparr>startTime = max (fst (ms ! i)) (nextStartTimeRef (stateAfter dec ms s i)),
                 duration = ds ! i\<rparr>]"
    and "nextStartTimeRef (stateAfter dec ms s (Suc i)) =
           max (fst (ms ! i)) (nextStartTimeRef (stateAfter dec ms s i)) + ds ! i"
    and "sourcesRef (stateAfter dec ms s (Suc i)) =
           sourcesRef (stateAfter dec ms s i) @ [length (started (stateAfter dec ms s i))]"
proof -
  let ?b = "stateAfter dec ms s i"
  have "list_all2 (fragment dec) (take i ms) (take i ds)"
    using frs by (rule list_all2_takeI)
  then have b: "outputAudioContextRef ?b \<noteq> None" "outputAnalyserRef ?b \<noteq> None"
    using receive_keeps_output [OF _ ctx] by (simp_all add: stateAfter_def)
  have f: "fragment dec (ms ! i) (ds ! i)"
    using frs i by (rule list_all2_nthD)
  then obtain a where a: "inlineData (snd (ms ! i)) = Some a" "a \<noteq> []" "dec a = Some (ds ! i)"
    "\<not> interrupted (snd (ms ! i))"
    by (auto simp: fragment_def)
  note st = fragment_step [where s = "?b" and m = "snd (ms ! i)" and a = a and dec = dec
      and d = "ds ! i" and now = "fst (ms ! i)", OF b a]
  show "started (stateAfter dec ms s (Suc i)) =
           started ?b @ [\<lparr>startTime = max (fst (ms ! i)) (nextStartTimeRef ?b), duration = ds ! i\<rparr>]"
    using st(1) by (simp add: stateAfter_Suc [OF i] max.commute)
  show "nextStartTimeRef (stateAfter dec ms s (Suc i)) =
           max (fst (ms ! i)) (nextStartTimeRef ?b) + ds ! i"
    using st(2) by (simp add: stateAfter_Suc [OF i] max.commute)
  show "sourcesRef (stateAfter dec ms s (Suc i)) = sourcesRef ?b @ [length (started ?b)]"
    using st(3) by (simp add: stateAfter_Suc [OF i])
qed

lemma startOf_eq:
  assumes "outputAudioContextRef s \<noteq> None" "outputAnalyserRef s \<noteq> None"
    and "list_all2 (fragment dec) ms ds" and "i < length ms"
  shows "startOf dec ms s i = max (fst (ms ! i)) (nextStartTimeRef (stateAfter dec ms s i))"
  by (simp add: startOf_def schedule_step(1) [OF assms])

lemma duration_nonneg:
  assumes "list_all2 (fragment dec) ms ds" and "i < length ms"
  shows "0 \<le> ds ! i"
  using list_all2_nthD [OF assms] by (simp add: fragment_def)

lemma startOf_Suc:
  assumes ctx: "outputAudioContextRef s \<noteq> None" "outputAnalyserRef s \<noteq> None"
    and frs: "list_all2 (fragment dec) ms ds" and i: "Suc i < length ms"
  shows "startOf dec ms s (Suc i) = max (fst (ms ! Suc i)) (startOf dec ms s i + ds ! i)"
proof -
  have i': "i < length ms" using i by simp
  show ?thesis
    by (simp add: startOf_eq [OF ctx frs i] schedule_step(2) [OF ctx frs i']
        startOf_eq [OF ctx frs i'])
qed

text \<open>
  Claim C2. Let the output context and its analyser exist (they do from a successful
  connect until disconnect), and let \<open>ms\<close> be messages received in order, each a fragment
  with duration \<open>ds ! i\<close>, none with the interruption flag. Then for every message \<open>i\<close>:
  its start time is the maximum of the clock reading at its arrival and the next start
  time as it stood before; one source with that start time and the fragment's duration
  is started and joins the active set; the next start time becomes that start time plus
  the duration. The following fragment starts no earlier than start plus duration, and
  exactly then when it arrives while the clock has not passed that point. The start
  times of the whole sequence are non-decreasing.
\<close>

theorem gapless_schedule:
  assumes ctx: "outputAudioContextRef s \<noteq> None" "outputAnalyserRef s \<noteq> None"
    and frs: "list_all2 (fragment dec) ms ds"
    and i: "i < length ms"
  shows "startOf dec ms s i = max (fst (ms ! i)) (nextStartTimeRef (stateAfter dec ms s i))
     \<and> started (stateAfter dec ms s (Suc i)) =
         started (stateAfter dec ms s i) @ [\<lparr>startTime = startOf dec ms s i, duration = ds ! i\<rparr>]
     \<and> sourcesRef (stateAfter dec ms s (Suc i)) =
         sourcesRef (stateAfter dec ms s i) @ [length (started (stateAfter dec ms s i))]
     \<and> nextStartTimeRef (stateAfter dec ms s (Suc i)) = startOf dec ms s i + ds ! i
     \<and> (Suc i < length ms \<longrightarrow>
           startOf dec ms s i + ds ! i \<le> startOf dec ms s (Suc i)
           \<and> (fst (ms ! Suc i) \<le> startOf dec ms s i + ds ! i \<longrightarrow>
                startOf dec ms s (Suc i) = startOf dec ms s i + ds ! i))
     \<and> sorted (map (startOf dec ms s) [0..<length ms])"
proof -
  note eq = startOf_eq [OF ctx frs i]
  note st = schedule_step [OF ctx frs i]
  have adj: "startOf dec ms s j \<le> startOf dec ms s (Suc j)" if "Suc j < length ms" for j
  proof -
    have "0 \<le> ds ! j" using duration_nonneg [OF frs] that by simp
    then show ?thesis using startOf_Suc [OF ctx frs that] by simp
  qed
  have "sorted (map (startOf dec ms s) [0..<length ms])"
    by (simp add: sorted_iff_nth_Suc adj)
  then show ?thesis
    using eq st startOf_Suc [OF ctx frs] by simp
qed

text \<open>
  The scenario of the specification: two fragments of half a second each, the second
  arriving a quarter of a second after the first. The first starts at 0, the second at
  one half.
\<close>

theorem gapless_schedule_witness:
  "outputAudioContextRef connectedApp \<noteq> None \<and> outputAnalyserRef connectedApp \<noteq> None
   \<and> list_all2 (fragment sampleDecode)
        [(0, audioMessage ''AAAA''), (1/4, audioMessage ''AAAA'')] [1/2, 1/2]
   \<and> startOf sampleDecode [(0, audioMessage ''AAAA''), (1/4, audioMessage ''AAAA'')]
        connectedApp 0 = 0
   \<and> startOf sampleDecode [(0, audioMessage ''AAAA''), (1/4, audioMessage ''AAAA'')]
        connectedApp 1 = 1/2
   \<and> nextStartTimeRef
        (stateAfter sampleDecode [(0, audioMessage ''AAAA''), (1/4, audioMessage ''AAAA'')]
           connectedApp 1) = 1/2"
proof -
  have c: "outputAudioContextRef connectedApp \<noteq> None" "outputAnalyserRef connectedApp \<noteq> None"
    by (simp_all add: connectedApp_def onopen_def addLog_def resolveSession_def neverThrows_def
        negotiatingApp_def connectToGemini_def initializeAudio_def initialApp_def lookup_def
        Let_def)
  have f: "list_all2 (fragment sampleDecode)
        [(0, audioMessage ''AAAA''), (1/4, audioMessage ''AAAA'')] [1/2, 1/2]"
    by (simp add: fragment_def sampleDecode_def audioMessage_def)
  have n: "nextStartTimeRef connectedApp = 0"
    by (simp add: connectedApp_def onopen_def addLog_def resolveSession_def neverThrows_def
        negotiatingApp_def connectToGemini_def initializeAudio_def initialApp_def lookup_def
        Let_def)
  show ?thesis
    using c f gapless_schedule [OF c f, of 0] n
    by (simp add: stateAfter_def)
qed

text \<open>
  The interruption part of \<open>onmessage\<close>, when the handler reaches it (the message has no
  audio, or its audio decodes): every source of the active set is stopped, the set is
  emptied and the next start time is zero; a fragment that arrives next is started at
  the clock reading of its arrival.
\<close>

lemma interruption_clears:
  assumes "interrupted m"
    and "handleAudio dec now m (handleTurnComplete m (handleTranscription m s)) = Inr s1"
  shows "sourcesRef (onmessage dec now m s) = []"
    and "nextStartTimeRef (onmessage dec now m s) = 0"
    and "stopCalls (onmessage dec now m s) = stopCalls s @ sourcesRef s1"
    and "set (sourcesRef s) \<subseteq> set (sourcesRef s1)"
  using assms
  by (auto simp add: onmessage_def handleInterruption_def handleAudio_def Let_def
      transcript_steps_scheduler split: option.splits if_splits)

lemma fragment_after_interruption:
  assumes "nextStartTimeRef s = 0" "0 \<le> now"
    and "outputAudioContextRef s \<noteq> None" "outputAnalyserRef s \<noteq> None"
    and "inlineData m = Some a" "a \<noteq> []" "dec a = Some d" "\<not> interrupted m"
  shows "started (onmessage dec now m s) = started s @ [\<lparr>startTime = now, duration = d\<rparr>]"
  using fragment_step(1) [where s = s and m = m and a = a and dec = dec and d = d and now = now]
    assms by simp

text \<open>
  Claim C3 fails for a message that carries the interruption flag together with audio
  data that does not decode. The decoding is awaited with no \<open>try\<close> around it, ahead of
  the interruption part, so the throw ends the handler: the playing source is not
  stopped, it stays in the active set, and the next start time keeps its value.
\<close>

theorem interruption_skipped_on_decode_failure:
  "sourcesRef playingApp = [0] \<and> nextStartTimeRef playingApp = 1/2
   \<and> sampleDecode ''!'' = None
   \<and> sourcesRef
        (onmessage sampleDecode (1/4) ((audioMessage ''!'')\<lparr>interrupted := True\<rparr>) playingApp)
        = [0]
   \<and> stopCalls
        (onmessage sampleDecode (1/4) ((audioMessage ''!'')\<lparr>interrupted := True\<rparr>) playingApp)
        = []
   \<and> nextStartTimeRef
        (onmessage sampleDecode (1/4) ((audioMessage ''!'')\<lparr>interrupted := True\<rparr>) playingApp)
        = 1/2"
  by (simp add: playingApp_def onmessage_def handleTranscription_def handleTurnComplete_def
      handleAudio_def handleInterruption_def sampleDecode_def audioMessage_def
      connectedApp_def onopen_def addLog_def resolveSession_def neverThrows_def
      negotiatingApp_def connectToGemini_def initializeAudio_def initialApp_def lookup_def
      Let_def)

subsection \<open>Disconnect and connect\<close>

text \<open>
  Claim C7. After \<open>disconnect\<close> the connection state is \<open>disconnected\<close>, the log and both
  accumulators are empty, the next start time is zero, the set of active sources is empty
  and the session handle is gone. A second \<open>disconnect\<close> changes nothing: the tracks and
  the audio contexts are as the first call left them (the context refs are null, so no
  context is closed again; the tracks of the stream are already ended), and the whole
  state is the same.
\<close>

theorem disconnect_idempotent:
  "connectionState (disconnect s) = disconnected \<and> logs (disconnect s) = []
   \<and> currentInputTranscriptionRef (disconnect s) = []
   \<and> currentOutputTranscriptionRef (disconnect s) = []
   \<and> nextStartTimeRef (disconnect s) = 0 \<and> sourcesRef (disconnect s) = []
   \<and> sessionPromiseRef (disconnect s) = None
   \<and> tracks (disconnect (disconnect s)) = tracks (disconnect s)
   \<and> contexts (disconnect (disconnect s)) = contexts (disconnect s)
   \<and> disconnect (disconnect s) = disconnect s"
  by (simp add: disconnect_def stopTracks_def closeContext_def split: option.splits)

text \<open>
  Claim C10. With the API key absent (undefined or the empty string) a connect request
  only appends the system log entry: the connection state is unchanged (from
  \<open>disconnected\<close> it stays \<open>disconnected\<close>; \<open>connecting\<close> is never set), no media track is
  acquired and no session promise is created.
\<close>

theorem no_api_key_no_connect:
  assumes "apiKey = None \<or> apiKey = Some []"
  shows "connectToGemini apiKey micOk connectThrows s = addLog system apiKeyMissingText s
         \<and> logs (connectToGemini apiKey micOk connectThrows s)
              = logs s @ [\<lparr>sender = system, logText = apiKeyMissingText\<rparr>]
         \<and> connectionState (connectToGemini apiKey micOk connectThrows s) = connectionState s
         \<and> tracks (connectToGemini apiKey micOk connectThrows s) = tracks s
         \<and> streamRef (connectToGemini apiKey micOk connectThrows s) = streamRef s
         \<and> promises (connectToGemini apiKey micOk connectThrows s) = promises s
         \<and> sessionPromiseRef (connectToGemini apiKey micOk connectThrows s) = sessionPromiseRef s"
  using assms by (auto simp add: connectToGemini_def addLog_def)

theorem no_api_key_no_connect_witness:
  "connectionState (connectToGemini None True None (initialApp :: nat App)) = disconnected
   \<and> logs (connectToGemini None True None (initialApp :: nat App))
        = [\<lparr>sender = system, logText = apiKeyMissingText\<rparr>]
   \<and> tracks (connectToGemini None True None (initialApp :: nat App)) = []
   \<and> promises (connectToGemini None True None (initialApp :: nat App)) = []"
  using no_api_key_no_connect [where apiKey = None and micOk = True and connectThrows = None
      and s = "initialApp :: nat App"]
  by (simp add: initialApp_def addLog_def)

subsection \<open>Errors and remote close\<close>

text \<open>
  Claim C8. From any state, the transport's error event sets the connection state to
  \<open>error\<close> and appends exactly one system entry; it creates no session promise and
  acquires no track (nothing is tried again). So does a failed microphone acquisition
  in \<open>initializeAudio\<close>, and a connect request whose microphone acquisition fails ends
  in state \<open>error\<close> with that one entry added. A send, whether or not it throws, and the
  capture callback and the settling of the session promise around it, leave the log and
  the connection state alone. A message whose audio fails to decode leaves the log as the
  same message without audio would, and leaves the connection state alone.
\<close>

theorem fatal_errors_one_log:
  "connectionState (onerror s) = error
   \<and> logs (onerror s) = logs s @ [\<lparr>sender = system, logText = errorText\<rparr>]
   \<and> promises (onerror s) = promises s \<and> tracks (onerror s) = tracks s
   \<and> sessionPromiseRef (onerror s) = sessionPromiseRef s
   \<and> connectionState (initializeAudio False s) = error
   \<and> logs (initializeAudio False s) = logs s @ [\<lparr>sender = system, logText = micErrorText\<rparr>]
   \<and> promises (initializeAudio False s) = promises s
   \<and> tracks (initializeAudio False s) = tracks s
   \<and> (apiKey \<noteq> None \<and> apiKey \<noteq> Some [] \<longrightarrow>
        connectionState (connectToGemini apiKey False None s) = error
        \<and> logs (connectToGemini apiKey False None s)
             = logs s @ [\<lparr>sender = system, logText = micErrorText\<rparr>]
        \<and> tracks (connectToGemini apiKey False None s) = tracks s)
   \<and> logs (sendRealtimeInput sendThrows p b s) = logs s
   \<and> connectionState (sendRealtimeInput sendThrows p b s) = connectionState s
   \<and> logs (onaudioprocess createBlob sendThrows muted x s) = logs s
   \<and> connectionState (onaudioprocess createBlob sendThrows muted x s) = connectionState s
   \<and> logs (resolveSession sendThrows p s) = logs s
   \<and> connectionState (resolveSession sendThrows p s) = connectionState s
   \<and> (inlineData m = Some a \<and> dec a = None \<longrightarrow>
        logs (onmessage dec now m s) = logs (onmessage dec now (m\<lparr>inlineData := None\<rparr>) s)
        \<and> connectionState (onmessage dec now m s) = connectionState s)"
  by (simp add: capture_path_fields sendRealtimeInput_fields audio_adds_no_log [symmetric]
      onmessage_connectionState)
     (simp add: onerror_def initializeAudio_def connectToGemini_def addLog_def)

theorem fatal_errors_one_log_witness:
  "connectionState (onerror connectedApp) = error
   \<and> length (logs (onerror connectedApp)) = Suc (length (logs connectedApp))
   \<and> connectionState (connectToGemini (Some ''key'') False None (initialApp :: (real list) App))
        = error
   \<and> logs (connectToGemini (Some ''key'') False None (initialApp :: (real list) App))
        = [\<lparr>sender = system, logText = micErrorText\<rparr>]
   \<and> inlineData (audioMessage ''!'') = Some ''!'' \<and> sampleDecode ''!'' = None
   \<and> logs (onmessage sampleDecode 0 (audioMessage ''!'') connectedApp) = logs connectedApp"
  using fatal_errors_one_log [where s = connectedApp]
    fatal_errors_one_log [where s = "initialApp :: (real list) App" and apiKey = "Some ''key''"]
    fatal_errors_one_log [where s = connectedApp and m = "audioMessage ''!''" and a = "''!''"
      and dec = sampleDecode and now = 0]
  by (simp add: initialApp_def audioMessage_def sampleDecode_def onmessage_logs
      handleTurnComplete_def handleTranscription_def)

text \<open>What \<open>onclose\<close> does: the connection state and one log entry, nothing else.\<close>

lemma onclose_fields:
  "connectionState (onclose s) = disconnected"
  "logs (onclose s) = logs s @ [\<lparr>sender = system, logText = closedText\<rparr>]"
  "sessionPromiseRef (onclose s) = sessionPromiseRef s"
  "nextStartTimeRef (onclose s) = nextStartTimeRef s"
  "sourcesRef (onclose s) = sourcesRef s"
  "currentInputTranscriptionRef (onclose s) = currentInputTranscriptionRef s"
  "currentOutputTranscriptionRef (onclose s) = currentOutputTranscriptionRef s"
  "tracks (onclose s) = tracks s"
  "contexts (onclose s) = contexts s"
  by (simp_all add: onclose_def addLog_def)

text \<open>
  Claim C9 fails. On the transport's close event the connection state becomes
  \<open>disconnected\<close>, but the session handle, the next start time, the active sources and
  the accumulators stay as they were, where \<open>disconnect\<close> resets them: here after a
  fragment and a piece of transcription have been received.
\<close>

theorem onclose_leaves_session_fields:
  "connectionState (onclose talkingApp) = disconnected
   \<and> sessionPromiseRef (onclose talkingApp) = Some 0
   \<and> nextStartTimeRef (onclose talkingApp) = 1/2
   \<and> sourcesRef (onclose talkingApp) = [0]
   \<and> currentInputTranscriptionRef (onclose talkingApp) = ''merhaba''
   \<and> tracks (onclose talkingApp) = [Live]
   \<and> sessionPromiseRef (disconnect talkingApp) = None
   \<and> nextStartTimeRef (disconnect talkingApp) = 0
   \<and> sourcesRef (disconnect talkingApp) = []
   \<and> currentInputTranscriptionRef (disconnect talkingApp) = []
   \<and> tracks (disconnect talkingApp) = [Ended]"
  by (simp add: talkingApp_def onclose_def disconnect_def stopTracks_def closeContext_def
      onmessage_def handleTranscription_def handleTurnComplete_def handleAudio_def
      handleInterruption_def sampleDecode_def audioMessage_def
      connectedApp_def onopen_def addLog_def resolveSession_def neverThrows_def
      negotiatingApp_def connectToGemini_def initializeAudio_def initialApp_def lookup_def
      Let_def)

end
